theory Spec2Isabelle
  imports Main "HOL-Library.Product_Lexorder"
begin

section \<open>Data model of the PIX controller\<close>

text \<open>
  Modelled from the spec: the Mongoose schema of the Transaction model
  (\<^verbatim>\<open>models/transaction.model.js\<close>) is not part of the sources; the three
  enumerations below follow the data model of the specification and the string
  literals the controller writes (\<^verbatim>\<open>'DEPOSIT'\<close>, \<^verbatim>\<open>'PENDING'\<close>,
  \<^verbatim>\<open>'COMPLETED'\<close>, \<^verbatim>\<open>'CANCELLED'\<close>, \<^verbatim>\<open>'PIX'\<close>).
\<close>

datatype txn_type = DEPOSIT | WITHDRAWAL | BET

datatype txn_status = PENDING | COMPLETED | CANCELLED

datatype pay_method = PIX | CREDIT_CARD

text \<open>
  The body of the webhook request (\<^verbatim>\<open>req.body.requestBody\<close>; the JSON body
  parser installed in \<^verbatim>\<open>app.js\<close> makes \<^verbatim>\<open>req.body\<close> an object). Only the
  fields the handler reads are kept; a field that is absent (or not of the expected
  shape) is \<open>None\<close>.
\<close>

record payload =
  p_status :: "string option"
  transactionId :: "string option"
  dateApproval :: "string option"
  creditParty :: "(string \<times> string) list option"
  p_amount :: "int option"

text \<open>Values stored under the keys of a transaction's \<^verbatim>\<open>metadata\<close> object.\<close>

datatype mvalue =
    MStr string
  | MNum int
  | MBool bool
  | MDate nat
  | MParty "(string \<times> string) list"
  | MBody payload

text \<open>
  A transaction document. \<open>oid\<close> is the document's \<^verbatim>\<open>_id\<close>, \<open>ttype\<close> its
  \<^verbatim>\<open>type\<close>. Amounts are whole numbers (the handler logs them as
  \<^verbatim>\<open>R$ ${amount},00\<close>); timestamps are points of a discrete clock, and the store
  sets \<open>createdAt\<close> and \<open>updatedAt\<close>.
\<close>

record txn =
  oid :: nat
  userId :: nat
  ttype :: txn_type
  amount :: int
  status :: txn_status
  paymentMethod :: pay_method
  externalReference :: string
  metadata :: "(string \<times> mvalue) list"
  createdAt :: nat
  updatedAt :: nat

record user =
  uid :: nat
  balance :: int

record credential =
  cred_id :: nat
  isActive :: bool

text \<open>The database: the three collections the controller touches.\<close>

record db =
  txns :: "txn list"
  users :: "user list"
  credentials :: "credential list"

section \<open>Store operations\<close>

text \<open>
  \<^verbatim>\<open>Model.findOne(filter).sort(keys)\<close>: the first document, in the order of the
  sort, among those that match the filter, or \<^verbatim>\<open>null\<close>. A descending sort is an
  ascending sort on the negated key. Documents with equal keys stay in collection
  order (the database leaves their order open).
\<close>

definition findOne :: "(txn \<Rightarrow> 'k::linorder) \<Rightarrow> (txn \<Rightarrow> bool) \<Rightarrow> txn list \<Rightarrow> txn option" where
  "findOne key flt docs =
     (case sort_key key (filter flt docs) of [] \<Rightarrow> None | d # _ \<Rightarrow> Some d)"

text \<open>\<^verbatim>\<open>.sort({ createdAt: -1 })\<close>\<close>

definition createdAt_desc :: "txn \<Rightarrow> int" where
  "createdAt_desc t = - int (createdAt t)"

text \<open>\<^verbatim>\<open>.sort({ amount: -1, createdAt: -1 })\<close>\<close>

definition amount_createdAt_desc :: "txn \<Rightarrow> int \<times> int" where
  "amount_createdAt_desc t = (- amount t, - int (createdAt t))"

text \<open>\<^verbatim>\<open>{ type: 'DEPOSIT', status: 'PENDING', paymentMethod: 'PIX' }\<close>\<close>

definition pending_pix :: "txn \<Rightarrow> bool" where
  "pending_pix t \<longleftrightarrow> ttype t = DEPOSIT \<and> status t = PENDING \<and> paymentMethod t = PIX"

text \<open>\<^verbatim>\<open>{ userId: userId, type: 'DEPOSIT', status: 'PENDING', paymentMethod: 'PIX' }\<close>\<close>

definition pending_pix_of :: "nat \<Rightarrow> txn \<Rightarrow> bool" where
  "pending_pix_of u t \<longleftrightarrow> userId t = u \<and> pending_pix t"

text \<open>The same filter with \<^verbatim>\<open>_id: { $ne: latestTransaction._id }\<close>.\<close>

definition other_pending_pix_of :: "nat \<Rightarrow> nat \<Rightarrow> txn \<Rightarrow> bool" where
  "other_pending_pix_of u i t \<longleftrightarrow> pending_pix_of u t \<and> oid t \<noteq> i"

text \<open>\<^verbatim>\<open>User.findById(id)\<close>\<close>

definition findById :: "nat \<Rightarrow> user list \<Rightarrow> user option" where
  "findById i us = find (\<lambda>u. uid u = i) us"

text \<open>
  Modelled from the spec: the middleware of the Transaction model that the handler's
  comment relies on (\<^verbatim>\<open>O saldo sera atualizado automaticamente pelo middleware do
  modelo Transaction\<close>) is not part of the sources. The specification gives its
  contract: the balance of the owning user is increased by the transaction's amount
  when a transaction is persisted with a transition of its status to COMPLETED.
  \<open>old\<close> is the document as stored before the write.
\<close>

definition credit_on_completed :: "txn option \<Rightarrow> txn \<Rightarrow> user list \<Rightarrow> user list" where
  "credit_on_completed old doc us =
     (if status doc = COMPLETED \<and> (case old of None \<Rightarrow> True | Some d \<Rightarrow> status d \<noteq> COMPLETED)
      then map (\<lambda>u. if uid u = userId doc then u\<lparr>balance := balance u + amount doc\<rparr> else u) us
      else us)"

text \<open>
  \<^verbatim>\<open>doc.save()\<close>: the stored document with the same \<^verbatim>\<open>_id\<close> takes the fields of
  \<open>doc\<close>, the store stamps \<^verbatim>\<open>updatedAt\<close>, and the model's middleware runs.
\<close>

definition save :: "nat \<Rightarrow> txn \<Rightarrow> db \<Rightarrow> db" where
  "save now doc s =
     s\<lparr>txns := map (\<lambda>t. if oid t = oid doc then doc\<lparr>updatedAt := now\<rparr> else t) (txns s),
       users := credit_on_completed (find (\<lambda>t. oid t = oid doc) (txns s)) doc (users s)\<rparr>"

text \<open>
  \<^verbatim>\<open>Transaction.updateMany(filter, patch)\<close>: every matching document is patched in
  the store; no document middleware runs.
\<close>

definition updateMany :: "(txn \<Rightarrow> bool) \<Rightarrow> (txn \<Rightarrow> txn) \<Rightarrow> db \<Rightarrow> db" where
  "updateMany flt patch s = s\<lparr>txns := map (\<lambda>t. if flt t then patch t else t) (txns s)\<rparr>"

text \<open>\<^verbatim>\<open>$set: { 'metadata.k': v }\<close>: the key is overwritten or added.\<close>

fun meta_set :: "string \<Rightarrow> mvalue \<Rightarrow> (string \<times> mvalue) list \<Rightarrow> (string \<times> mvalue) list" where
  "meta_set k v [] = [(k, v)]"
| "meta_set k v ((k', v') # m) = (if k' = k then (k, v) # m else (k', v') # meta_set k v m)"

section \<open>The webhook handler\<close>

text \<open>
  JavaScript's \<^verbatim>\<open>x || 'unknown'\<close>: an absent value, the empty string and the number
  \<open>0\<close> are falsy.
\<close>

definition str_or_unknown :: "string option \<Rightarrow> mvalue" where
  "str_or_unknown x =
     (case x of None \<Rightarrow> MStr ''unknown'' | Some v \<Rightarrow> if v = [] then MStr ''unknown'' else MStr v)"

definition num_or_unknown :: "int option \<Rightarrow> mvalue" where
  "num_or_unknown x =
     (case x of None \<Rightarrow> MStr ''unknown'' | Some v \<Rightarrow> if v = 0 then MStr ''unknown'' else MNum v)"

text \<open>\<^verbatim>\<open>requestBody.dateApproval || new Date()\<close>\<close>

definition date_or_now :: "string option \<Rightarrow> nat \<Rightarrow> mvalue" where
  "date_or_now x now =
     (case x of None \<Rightarrow> MDate now | Some v \<Rightarrow> if v = [] then MDate now else MStr v)"

text \<open>\<^verbatim>\<open>requestBody.creditParty || {}\<close> (an object is always truthy)\<close>

definition party_or_empty :: "(string \<times> string) list option \<Rightarrow> mvalue" where
  "party_or_empty x = (case x of None \<Rightarrow> MParty [] | Some v \<Rightarrow> MParty v)"

text \<open>
  The assignments to \<^verbatim>\<open>latestTransaction.status\<close> and
  \<^verbatim>\<open>latestTransaction.metadata\<close> before the save.
\<close>

definition mark_completed :: "nat \<Rightarrow> payload \<Rightarrow> nat \<Rightarrow> txn \<Rightarrow> txn" where
  "mark_completed now requestBody u t =
     t\<lparr>status := COMPLETED,
       metadata :=
         [(''pixTransactionId'', str_or_unknown (transactionId requestBody)),
          (''dateApproval'', date_or_now (dateApproval requestBody) now),
          (''payerInfo'', party_or_empty (creditParty requestBody)),
          (''webhookData'', MBody requestBody),
          (''paymentMethod'', MStr ''PIX''),
          (''specialLogicApplied'', MBool True),
          (''originalAmount'', MNum (amount t)),
          (''actualPaymentAmount'', num_or_unknown (p_amount requestBody)),
          (''processedAt'', MDate now),
          (''userIdProcessed'', MNum (int u))]\<rparr>"

text \<open>
  The patch of the \<^verbatim>\<open>updateMany\<close> call: status CANCELLED and three metadata keys
  (the reason is the handler's Portuguese sentence, written here without accents).
\<close>

definition mark_cancelled :: "nat \<Rightarrow> txn \<Rightarrow> txn" where
  "mark_cancelled now t =
     t\<lparr>status := CANCELLED,
       metadata :=
         meta_set ''reason'' (MStr ''Cancelado pela logica especial - Valor maior ja foi creditado'')
           (meta_set ''cancelledAt'' (MDate now)
             (meta_set ''cancelledBy'' (MStr ''SPECIAL_LOGIC'') (metadata t))),
       updatedAt := now\<rparr>"

text \<open>
  The outcomes of the handlers. Each failure is one \<^verbatim>\<open>res.status(code).json(...)\<close>
  of the source; \<open>http_status\<close> gives its code.
\<close>

datatype failure =
    InvalidWebhook
  | NoPendingDeposit
  | NoPendingDepositForUser
  | UserNotFound
  | InternalError
  | InvalidAmount
  | BelowMinimum
  | NoCredentials

record webhook_data =
  r_userId :: nat
  originalAmount :: int
  actualPaymentAmount :: mvalue
  specialLogicApplied :: bool
  cancelledTransactions :: nat
  totalCredited :: int

record generated_data =
  transaction_id :: nat
  external_id :: string
  qr_code :: string
  g_amount :: int

datatype reply =
    WebhookOk webhook_data
  | Generated generated_data
  | Failure failure

fun http_status :: "reply \<Rightarrow> nat" where
  "http_status (WebhookOk _) = 200"
| "http_status (Generated _) = 201"
| "http_status (Failure InvalidWebhook) = 400"
| "http_status (Failure NoPendingDeposit) = 404"
| "http_status (Failure NoPendingDepositForUser) = 404"
| "http_status (Failure UserNotFound) = 404"
| "http_status (Failure InternalError) = 500"
| "http_status (Failure InvalidAmount) = 400"
| "http_status (Failure BelowMinimum) = 400"
| "http_status (Failure NoCredentials) = 500"

text \<open>
  Every \<^verbatim>\<open>await\<close> of the handler is a call to the store that may throw; the
  \<^verbatim>\<open>catch\<close> block then answers 500 and undoes nothing. A \<open>fault\<close> names the
  call that throws in a run and how far that call had come when it threw. A lookup
  writes nothing. \<open>Fail_save written hooked\<close> is a \<^verbatim>\<open>save()\<close> that throws with the
  document written or not (\<open>written\<close>) and with the model's middleware run or not
  (\<open>hooked\<close>). \<open>Fail_updateMany ws\<close> is an \<^verbatim>\<open>updateMany\<close> that throws after it
  has patched, among the matching documents, those whose identifier is in \<open>ws\<close>: the
  call is not atomic across documents, so it may have patched none, some or all of
  them. \<open>NoFault\<close> is a run where the store answers every call.
\<close>

datatype fault =
    NoFault
  | Fail_findAnyPending
  | Fail_findLatest
  | Fail_findUser
  | Fail_save bool bool
  | Fail_findOthers
  | Fail_updateMany "nat list"

text \<open>
  A \<^verbatim>\<open>save()\<close> that throws: the store holds the document of a completed save when
  the write had happened, and the balances of a completed save when the middleware
  had run.
\<close>

definition save_interrupted :: "bool \<Rightarrow> bool \<Rightarrow> nat \<Rightarrow> txn \<Rightarrow> db \<Rightarrow> db" where
  "save_interrupted written hooked now doc s =
     s\<lparr>txns := (if written then txns (save now doc s) else txns s),
       users := (if hooked then users (save now doc s) else users s)\<rparr>"

definition success_data :: "payload \<Rightarrow> nat \<Rightarrow> txn \<Rightarrow> nat \<Rightarrow> webhook_data" where
  "success_data requestBody u latestTransaction n =
     \<lparr>r_userId = u,
      originalAmount = amount latestTransaction,
      actualPaymentAmount = num_or_unknown (p_amount requestBody),
      specialLogicApplied = True,
      cancelledTransactions = n,
      totalCredited = amount latestTransaction\<rparr>"

text \<open>
  The second half of \<^verbatim>\<open>pixWebhook\<close>, from the assignment of the new status on:
  save the candidate, look the other pending PIX deposits of the user up, cancel them
  when there are any, answer. A call that throws leaves what it had written.
\<close>

definition reconcile :: "fault \<Rightarrow> nat \<Rightarrow> payload \<Rightarrow> nat \<Rightarrow> txn \<Rightarrow> db \<Rightarrow> reply \<times> db" where
  "reconcile flt now requestBody u latestTransaction s =
     (case flt of
        Fail_save written hooked \<Rightarrow>
          (Failure InternalError,
           save_interrupted written hooked now (mark_completed now requestBody u latestTransaction) s)
      | _ \<Rightarrow>
        let s1 = save now (mark_completed now requestBody u latestTransaction) s in
        if flt = Fail_findOthers then (Failure InternalError, s1)
        else
          let otherPendingTransactions =
                filter (other_pending_pix_of u (oid latestTransaction)) (txns s1) in
          if length otherPendingTransactions > 0 then
            (case flt of
               Fail_updateMany ws \<Rightarrow>
                 (Failure InternalError,
                  updateMany (\<lambda>t. other_pending_pix_of u (oid latestTransaction) t \<and> oid t \<in> set ws)
                    (mark_cancelled now) s1)
             | _ \<Rightarrow>
                 (WebhookOk (success_data requestBody u latestTransaction
                               (length otherPendingTransactions)),
                  updateMany (other_pending_pix_of u (oid latestTransaction))
                    (mark_cancelled now) s1))
          else
            (WebhookOk (success_data requestBody u latestTransaction
                          (length otherPendingTransactions)), s1))"

definition pixWebhook :: "fault \<Rightarrow> nat \<Rightarrow> payload option \<Rightarrow> db \<Rightarrow> reply \<times> db" where
  "pixWebhook flt now body s =
     (case body of
        None \<Rightarrow> (Failure InvalidWebhook, s)
      | Some requestBody \<Rightarrow>
          if p_status requestBody \<noteq> Some ''PAID'' then (Failure InvalidWebhook, s)
          else if flt = Fail_findAnyPending then (Failure InternalError, s)
          else
            (case findOne createdAt_desc pending_pix (txns s) of
               None \<Rightarrow> (Failure NoPendingDeposit, s)
             | Some anyPendingTransaction \<Rightarrow>
                 let u = userId anyPendingTransaction in
                 if flt = Fail_findLatest then (Failure InternalError, s)
                 else
                   (case findOne amount_createdAt_desc (pending_pix_of u) (txns s) of
                      None \<Rightarrow> (Failure NoPendingDepositForUser, s)
                    | Some latestTransaction \<Rightarrow>
                        if flt = Fail_findUser then (Failure InternalError, s)
                        else
                          (case findById (userId latestTransaction) (users s) of
                             None \<Rightarrow> (Failure UserNotFound, s)
                           | Some usr \<Rightarrow> reconcile flt now requestBody u latestTransaction s))))"

section \<open>The deposit request handler\<close>




text \<open>
  \<^verbatim>\<open>Transaction.create({...})\<close>: the new document gets the identifier \<open>newId\<close>
  from the store, both timestamps, and no metadata.
\<close>

definition new_deposit :: "nat \<Rightarrow> nat \<Rightarrow> nat \<Rightarrow> int \<Rightarrow> string \<Rightarrow> txn" where
  "new_deposit now newId u a externalId =
     \<lparr>oid = newId, userId = u, ttype = DEPOSIT, amount = a, status = PENDING,
      paymentMethod = PIX, externalReference = externalId, metadata = [],
      createdAt = now, updatedAt = now\<rparr>"




section \<open>Well-formed stores and observations\<close>

text \<open>The store keeps \<^verbatim>\<open>_id\<close> unique within a collection.\<close>

definition unique_ids :: "db \<Rightarrow> bool" where
  "unique_ids s \<longleftrightarrow> distinct (map oid (txns s))"

text \<open>The status stored under an identifier, and the balance stored for a user.\<close>

definition status_of :: "nat \<Rightarrow> db \<Rightarrow> txn_status option" where
  "status_of i s = map_option status (find (\<lambda>t. oid t = i) (txns s))"

definition balance_of :: "nat \<Rightarrow> db \<Rightarrow> int option" where
  "balance_of u s = map_option balance (findById u (users s))"

text \<open>
  What one run of the reconciliation makes of a stored document, for the candidate
  \<open>c\<close> of user \<open>u\<close>: the candidate is completed, the user's other pending PIX
  deposits are cancelled, everything else stays. \<open>credited\<close> is the user collection
  after the candidate's save.
\<close>

definition resolved :: "nat \<Rightarrow> payload \<Rightarrow> nat \<Rightarrow> txn \<Rightarrow> txn \<Rightarrow> txn" where
  "resolved now rb u c t =
     (if oid t = oid c then (mark_completed now rb u c)\<lparr>updatedAt := now\<rparr>
      else if pending_pix_of u t then mark_cancelled now t
      else t)"

definition credited :: "nat \<Rightarrow> payload \<Rightarrow> nat \<Rightarrow> txn \<Rightarrow> db \<Rightarrow> user list" where
  "credited now rb u c s =
     credit_on_completed (find (\<lambda>t. oid t = oid c) (txns s)) (mark_completed now rb u c) (users s)"

text \<open>
  The pending PIX deposits of a user in a store, and the documents that a later store
  holds under the identifiers of given documents.
\<close>

definition pending_of :: "nat \<Rightarrow> db \<Rightarrow> txn list" where
  "pending_of u s = filter (pending_pix_of u) (txns s)"

definition after :: "txn list \<Rightarrow> db \<Rightarrow> txn list" where
  "after ds s' = filter (\<lambda>t. oid t \<in> set (map oid ds)) (txns s')"


text \<open>
  What a run that ends in a failure of the store has written when it reaches the
  save: whether the candidate's document was written, and the identifiers that a
  throwing \<^verbatim>\<open>updateMany\<close> had patched.
\<close>

fun doc_written :: "fault \<Rightarrow> bool" where
  "doc_written (Fail_save written hooked) = written"
| "doc_written flt = True"

fun patched :: "fault \<Rightarrow> nat list" where
  "patched (Fail_updateMany ws) = ws"
| "patched flt = []"

text \<open>
  What a run makes of a stored document when the candidate's document was written or
  not and the siblings with an identifier in \<open>ws\<close> were patched.
\<close>

definition partly_resolved :: "bool \<Rightarrow> nat list \<Rightarrow> nat \<Rightarrow> payload \<Rightarrow> nat \<Rightarrow> txn \<Rightarrow> txn \<Rightarrow> txn" where
  "partly_resolved written ws now rb u c t =
     (if oid t = oid c
      then (if written then (mark_completed now rb u c)\<lparr>updatedAt := now\<rparr> else t)
      else if pending_pix_of u t \<and> oid t \<in> set ws then mark_cancelled now t
      else t)"

section \<open>Example stores\<close>

text \<open>
  The scenario of the controller's header comment: user 7 asks for a deposit of 500,
  does not pay it, asks for one of 35, and a confirmation arrives.
\<close>

definition ex_paid :: payload where
  "ex_paid = \<lparr>p_status = Some ''PAID'', transactionId = Some ''E123'', dateApproval = None,
              creditParty = None, p_amount = Some 35\<rparr>"

definition ex_dep500 :: txn where
  "ex_dep500 = new_deposit 10 1 7 500 ''PIX_10_7''"

definition ex_dep35 :: txn where
  "ex_dep35 = new_deposit 20 2 7 35 ''PIX_20_7''"

definition ex_store :: db where
  "ex_store = \<lparr>txns = [ex_dep500, ex_dep35], users = [\<lparr>uid = 7, balance = 3\<rparr>],
               credentials = [\<lparr>cred_id = 1, isActive = True\<rparr>]\<rparr>"

text \<open>A second user, 8, with an older pending deposit of 100.\<close>

definition ex_dep100 :: txn where
  "ex_dep100 = new_deposit 5 3 8 100 ''PIX_5_8''"

definition ex_two_users :: db where
  "ex_two_users = \<lparr>txns = [ex_dep100, ex_dep500, ex_dep35],
                   users = [\<lparr>uid = 7, balance = 3\<rparr>, \<lparr>uid = 8, balance = 0\<rparr>],
                   credentials = []\<rparr>"

text \<open>User 7 with two pending deposits of 500, the second one more recent, and one of 35.\<close>

definition ex_dep500_later :: txn where
  "ex_dep500_later = new_deposit 15 4 7 500 ''PIX_15_7''"

definition ex_tie :: db where
  "ex_tie = \<lparr>txns = [ex_dep500, ex_dep500_later, ex_dep35], users = [\<lparr>uid = 7, balance = 3\<rparr>],
             credentials = []\<rparr>"

text \<open>
  User 7 with an older completed deposit of 60 and an older cancelled one of 900:
  alone, and together with the two pending ones.
\<close>

definition ex_done :: txn where
  "ex_done = (new_deposit 1 5 7 60 ''PIX_1_7'')\<lparr>status := COMPLETED\<rparr>"

definition ex_cancelled :: txn where
  "ex_cancelled = (new_deposit 2 6 7 900 ''PIX_2_7'')\<lparr>status := CANCELLED\<rparr>"

definition ex_settled :: db where
  "ex_settled = \<lparr>txns = [ex_done, ex_cancelled], users = [\<lparr>uid = 7, balance = 63\<rparr>],
                 credentials = []\<rparr>"


lemmas handler_defs =
  pixWebhook_def reconcile_def findOne_def findById_def pending_pix_def pending_pix_of_def
  other_pending_pix_of_def createdAt_desc_def amount_createdAt_desc_def save_def
  updateMany_def mark_completed_def mark_cancelled_def credit_on_completed_def
  success_data_def Let_def

section \<open>Queries\<close>

lemma findOne_None_iff: "findOne key P docs = None \<longleftrightarrow> (\<forall>t\<in>set docs. \<not> P t)"
proof -
  have "sort_key key (filter P docs) = [] \<longleftrightarrow> filter P docs = []"
    using length_sort [of key "filter P docs"] by (metis length_0_conv)
  then show ?thesis
    by (cases "sort_key key (filter P docs)") (simp_all add: findOne_def filter_empty_conv)
qed

lemma findOne_SomeD:
  assumes "findOne key P docs = Some d"
  shows "d \<in> set docs" and "P d" and "\<forall>t\<in>set docs. P t \<longrightarrow> key d \<le> key t"
proof -
  from assms obtain ds where srt: "sort_key key (filter P docs) = d # ds"
    by (auto simp: findOne_def split: list.splits)
  have mem: "set (d # ds) = set (filter P docs)"
    using set_sort [of key "filter P docs"] srt by simp
  then have "d \<in> set (filter P docs)" by auto
  then show "d \<in> set docs" and "P d" by simp_all
  have "sorted (map key (d # ds))"
    using sorted_sort_key [of key "filter P docs"] srt by simp
  then have "\<forall>t\<in>set (d # ds). key d \<le> key t" by auto
  with mem show "\<forall>t\<in>set docs. P t \<longrightarrow> key d \<le> key t" by auto
qed

section \<open>The reconciliation in closed form\<close>

lemma oid_mark_completed [simp]: "oid (mark_completed now rb u c) = oid c"
  by (simp add: mark_completed_def)

lemma filter_map_fixed:
  "(\<And>x. x \<in> set xs \<Longrightarrow> P (f x) = P x) \<Longrightarrow> (\<And>x. x \<in> set xs \<Longrightarrow> P x \<Longrightarrow> f x = x)
   \<Longrightarrow> filter P (map f xs) = filter P xs"
  by (induction xs) auto

lemma others_after_save:
  "filter (other_pending_pix_of u (oid c)) (txns (save now (mark_completed now rb u c) s))
   = filter (other_pending_pix_of u (oid c)) (txns s)"
  unfolding save_def by (simp, rule filter_map_fixed) (auto simp: other_pending_pix_of_def)

lemma resolved_txns:
  "map (\<lambda>t. if other_pending_pix_of u (oid c) t then mark_cancelled now t else t)
     (txns (save now (mark_completed now rb u c) s)) = map (resolved now rb u c) (txns s)"
  by (auto simp: save_def resolved_def other_pending_pix_of_def)

lemma resolved_txns_no_others:
  assumes "filter (other_pending_pix_of u (oid c)) (txns s) = []"
  shows "txns (save now (mark_completed now rb u c) s) = map (resolved now rb u c) (txns s)"
proof -
  from assms have "\<forall>t\<in>set (txns s). \<not> other_pending_pix_of u (oid c) t"
    by (simp add: filter_empty_conv)
  then show ?thesis
    by (auto simp: save_def resolved_def other_pending_pix_of_def)
qed

lemma reconcile_NoFault:
  "reconcile NoFault now rb u c s =
     (WebhookOk (success_data rb u c (length (filter (other_pending_pix_of u (oid c)) (txns s)))),
      s\<lparr>txns := map (resolved now rb u c) (txns s), users := credited now rb u c s\<rparr>)"
proof -
  define s1 where "s1 = save now (mark_completed now rb u c) s"
  define s2 where "s2 = s\<lparr>txns := map (resolved now rb u c) (txns s), users := credited now rb u c s\<rparr>"
  have others: "filter (other_pending_pix_of u (oid c)) (txns s1)
                = filter (other_pending_pix_of u (oid c)) (txns s)"
    unfolding s1_def by (rule others_after_save)
  have run: "reconcile NoFault now rb u c s =
     (if length (filter (other_pending_pix_of u (oid c)) (txns s)) > 0
      then (WebhookOk (success_data rb u c (length (filter (other_pending_pix_of u (oid c)) (txns s)))),
            updateMany (other_pending_pix_of u (oid c)) (mark_cancelled now) s1)
      else (WebhookOk (success_data rb u c (length (filter (other_pending_pix_of u (oid c)) (txns s)))), s1))"
    unfolding reconcile_def Let_def s1_def [symmetric] others by simp
  show ?thesis
  proof (cases "filter (other_pending_pix_of u (oid c)) (txns s) = []")
    case True
    have "s1 = s2"
      unfolding s1_def s2_def using resolved_txns_no_others [OF True, of now rb]
      by (simp add: save_def credited_def)
    with True run show ?thesis by (simp add: s2_def)
  next
    case False
    have "updateMany (other_pending_pix_of u (oid c)) (mark_cancelled now) s1 = s2"
      unfolding s1_def s2_def using resolved_txns [of u c now rb s]
      by (simp add: updateMany_def) (simp add: save_def credited_def)
    with False run show ?thesis by (simp add: s2_def)
  qed
qed

lemma candidate_exists:
  assumes "findOne createdAt_desc pending_pix docs = Some a"
  shows "\<exists>c. findOne amount_createdAt_desc (pending_pix_of (userId a)) docs = Some c"
proof -
  from findOne_SomeD(1,2) [OF assms] have "a \<in> set docs" "pending_pix_of (userId a) a"
    by (simp_all add: pending_pix_of_def)
  then have "findOne amount_createdAt_desc (pending_pix_of (userId a)) docs \<noteq> None"
    unfolding findOne_None_iff by blast
  then show ?thesis by auto
qed

lemma pixWebhook_run:
  assumes paid: "p_status rb = Some ''PAID''"
    and a: "findOne createdAt_desc pending_pix (txns s) = Some a"
    and c: "findOne amount_createdAt_desc (pending_pix_of (userId a)) (txns s) = Some c"
  shows "pixWebhook NoFault now (Some rb) s =
     (case findById (userId a) (users s) of
        None \<Rightarrow> (Failure UserNotFound, s)
      | Some usr \<Rightarrow>
          (WebhookOk (success_data rb (userId a) c
             (length (filter (other_pending_pix_of (userId a) (oid c)) (txns s)))),
           s\<lparr>txns := map (resolved now rb (userId a) c) (txns s),
             users := credited now rb (userId a) c s\<rparr>))"
proof -
  from findOne_SomeD(2) [OF c] have "userId c = userId a"
    by (simp add: pending_pix_of_def)
  then show ?thesis
    by (simp add: pixWebhook_def paid a c Let_def reconcile_NoFault split: option.split)
qed

lemma pixWebhook_WebhookOkE:
  assumes "pixWebhook NoFault now body s = (WebhookOk d, s')"
  obtains rb a c usr where "body = Some rb" and "p_status rb = Some ''PAID''"
    and "findOne createdAt_desc pending_pix (txns s) = Some a"
    and "findOne amount_createdAt_desc (pending_pix_of (userId a)) (txns s) = Some c"
    and "findById (userId a) (users s) = Some usr"
    and "d = success_data rb (userId a) c
               (length (filter (other_pending_pix_of (userId a) (oid c)) (txns s)))"
    and "s' = s\<lparr>txns := map (resolved now rb (userId a) c) (txns s),
                users := credited now rb (userId a) c s\<rparr>"
proof -
  from assms obtain rb where rb: "body = Some rb" and paid: "p_status rb = Some ''PAID''"
    by (auto simp: pixWebhook_def split: option.splits if_splits)
  from assms rb paid obtain a where a: "findOne createdAt_desc pending_pix (txns s) = Some a"
    by (auto simp: pixWebhook_def split: option.splits if_splits)
  from candidate_exists [OF a] obtain c
    where c: "findOne amount_createdAt_desc (pending_pix_of (userId a)) (txns s) = Some c" ..
  from assms show ?thesis
    unfolding rb pixWebhook_run [OF paid a c]
    by (auto split: option.splits intro: that [OF rb paid a c])
qed

lemma reconcile_not_per_user:
  "fst (reconcile flt now rb u c s) \<noteq> Failure NoPendingDepositForUser"
  by (simp add: reconcile_def Let_def split: fault.split)

lemma oid_resolved [simp]: "oid (resolved now rb u c t) = oid t"
  by (simp add: resolved_def mark_cancelled_def)

lemma status_resolved:
  "status (resolved now rb u c t) =
     (if oid t = oid c then COMPLETED else if pending_pix_of u t then CANCELLED else status t)"
  by (simp add: resolved_def mark_cancelled_def mark_completed_def)

lemma resolved_untouched:
  "oid t \<noteq> oid c \<Longrightarrow> \<not> pending_pix_of u t \<Longrightarrow> resolved now rb u c t = t"
  by (simp add: resolved_def)

lemma find_map_oid:
  "(\<And>t. oid (f t) = oid t) \<Longrightarrow>
   find (\<lambda>t. oid t = i) (map f xs) = map_option f (find (\<lambda>t. oid t = i) xs)"
  by (induction xs) auto

lemma same_oid_same_doc:
  "distinct (map oid xs) \<Longrightarrow> t \<in> set xs \<Longrightarrow> c \<in> set xs \<Longrightarrow> oid t = oid c \<Longrightarrow> t = c"
  by (auto simp: distinct_map dest: inj_onD)

lemma find_unique_oid:
  "distinct (map oid xs) \<Longrightarrow> c \<in> set xs \<Longrightarrow> find (\<lambda>t. oid t = oid c) xs = Some c"
  by (induction xs) auto

lemma candidate_props:
  assumes "findOne amount_createdAt_desc (pending_pix_of u) xs = Some c"
  shows "c \<in> set xs" and "pending_pix_of u c"
    and "\<forall>t\<in>set xs. pending_pix_of u t \<longrightarrow>
           amount t \<le> amount c \<and> (amount t = amount c \<longrightarrow> createdAt t \<le> createdAt c)"
proof -
  from findOne_SomeD [OF assms] show "c \<in> set xs" and "pending_pix_of u c" by simp_all
  from findOne_SomeD(3) [OF assms]
  show "\<forall>t\<in>set xs. pending_pix_of u t \<longrightarrow>
           amount t \<le> amount c \<and> (amount t = amount c \<longrightarrow> createdAt t \<le> createdAt c)"
    by (auto simp: amount_createdAt_desc_def less_eq_prod_def)
qed

lemma status_of_resolved:
  assumes "distinct (map oid xs)" and "t \<in> set xs"
  shows "status_of (oid t) (s\<lparr>txns := map (resolved now rb u c) xs, users := us\<rparr>)
         = Some (status (resolved now rb u c t))"
  using find_unique_oid [OF assms] by (simp add: status_of_def find_map_oid)

lemma balance_after_credit:
  "map_option balance
     (find (\<lambda>x. uid x = v) (map (\<lambda>x. if uid x = u then x\<lparr>balance := balance x + k\<rparr> else x) us))
   = map_option (\<lambda>b. if v = u then b + k else b) (map_option balance (find (\<lambda>x. uid x = v) us))"
  by (induction us) auto

lemma credited_candidate:
  assumes "distinct (map oid (txns s))" and "c \<in> set (txns s)" and "pending_pix_of u c"
  shows "credited now rb u c s =
         map (\<lambda>x. if uid x = u then x\<lparr>balance := balance x + amount c\<rparr> else x) (users s)"
  using assms(3) find_unique_oid [OF assms(1,2)]
  by (simp add: credited_def credit_on_completed_def mark_completed_def pending_pix_of_def
      pending_pix_def)

section \<open>Rejections\<close>

text \<open>
  Claim C7. When the request carries no \<^verbatim>\<open>requestBody\<close>, or one whose status is not
  \<^verbatim>\<open>'PAID'\<close>, the handler answers with the invalid-webhook failure, whose code is
  400, and the database it leaves is the database it found: every transaction and
  every balance is unchanged. No store call is made before the rejection, so this
  holds whatever call would have thrown.
\<close>

theorem invalid_webhook_rejected:
  assumes "body = None \<or> (\<exists>rb. body = Some rb \<and> p_status rb \<noteq> Some ''PAID'')"
  shows "pixWebhook flt now body s = (Failure InvalidWebhook, s)
         \<and> http_status (Failure InvalidWebhook) = 400"
  using assms by (auto simp: pixWebhook_def)

theorem invalid_webhook_rejected_witness:
  "(Some (ex_paid\<lparr>p_status := Some ''CANCELED''\<rparr>) = None
      \<or> (\<exists>rb. Some (ex_paid\<lparr>p_status := Some ''CANCELED''\<rparr>) = Some rb
               \<and> p_status rb \<noteq> Some ''PAID''))
   \<and> pixWebhook NoFault 30 (Some (ex_paid\<lparr>p_status := Some ''CANCELED''\<rparr>)) ex_store
       = (Failure InvalidWebhook, ex_store)
   \<and> pixWebhook NoFault 30 None ex_store = (Failure InvalidWebhook, ex_store)"
  using invalid_webhook_rejected [of "Some (ex_paid\<lparr>p_status := Some ''CANCELED''\<rparr>)" NoFault 30 ex_store]
    invalid_webhook_rejected [of None NoFault 30 ex_store]
  by (simp add: ex_paid_def)

text \<open>
  Claim C8. When no transaction of the store is a pending PIX deposit and the first
  lookup answers, a confirmation with status \<^verbatim>\<open>'PAID'\<close> is answered with the
  no-pending-deposit failure, whose code is 404, and the database is left as it was.
\<close>

theorem no_pending_rejected:
  assumes "p_status rb = Some ''PAID''" and "\<forall>t\<in>set (txns s). \<not> pending_pix t"
    and "flt \<noteq> Fail_findAnyPending"
  shows "pixWebhook flt now (Some rb) s = (Failure NoPendingDeposit, s)
         \<and> http_status (Failure NoPendingDeposit) = 404"
proof -
  from assms(2) have "findOne createdAt_desc pending_pix (txns s) = None"
    by (simp add: findOne_None_iff)
  with assms(1,3) show ?thesis by (simp add: pixWebhook_def)
qed

theorem no_pending_rejected_witness:
  "p_status ex_paid = Some ''PAID''
   \<and> map status (txns ex_settled) = [COMPLETED, CANCELLED]
   \<and> filter pending_pix (txns ex_settled) = []
   \<and> NoFault \<noteq> Fail_findAnyPending
   \<and> pixWebhook NoFault 30 (Some ex_paid) ex_settled = (Failure NoPendingDeposit, ex_settled)
   \<and> http_status (Failure NoPendingDeposit) = 404"
proof -
  have h1: "p_status ex_paid = Some ''PAID''"
    by (simp add: ex_paid_def ex_settled_def ex_done_def ex_cancelled_def new_deposit_def)
  have h2: "\<forall>t\<in>set (txns ex_settled). \<not> pending_pix t"
    by (simp add: ex_paid_def ex_settled_def ex_done_def ex_cancelled_def new_deposit_def
        pending_pix_def)
  have h3: "NoFault \<noteq> Fail_findAnyPending" by simp
  have obs: "map status (txns ex_settled) = [COMPLETED, CANCELLED]
     \<and> filter pending_pix (txns ex_settled) = []"
    by (simp add: ex_paid_def ex_settled_def ex_done_def ex_cancelled_def new_deposit_def
        pending_pix_def)
  from no_pending_rejected [OF h1 h2 h3, of 30] h1 obs show ?thesis by simp
qed

text \<open>
  Claim C10. Whenever the first lookup finds a most recent pending PIX deposit \<open>a\<close>,
  that same document is among the pending PIX deposits of its owner, so the second
  lookup, restricted to that owner, finds a document too. Hence no run of the handler,
  whatever the request, the store and the call that throws, ends in the per-user
  not-found answer.
\<close>

theorem per_user_not_found_unreachable:
  "(\<forall>a. findOne createdAt_desc pending_pix (txns s) = Some a \<longrightarrow>
        a \<in> set (filter (pending_pix_of (userId a)) (txns s))
        \<and> findOne amount_createdAt_desc (pending_pix_of (userId a)) (txns s) \<noteq> None)
   \<and> fst (pixWebhook flt now body s) \<noteq> Failure NoPendingDepositForUser"
proof (intro conjI allI impI)
  fix a assume a: "findOne createdAt_desc pending_pix (txns s) = Some a"
  from findOne_SomeD(1,2) [OF a]
  show "a \<in> set (filter (pending_pix_of (userId a)) (txns s))"
    by (simp add: pending_pix_of_def)
  from candidate_exists [OF a]
  show "findOne amount_createdAt_desc (pending_pix_of (userId a)) (txns s) \<noteq> None" by auto
next
  show "fst (pixWebhook flt now body s) \<noteq> Failure NoPendingDepositForUser"
  proof (cases "findOne createdAt_desc pending_pix (txns s)")
    case None
    then show ?thesis by (simp add: pixWebhook_def split: option.split)
  next
    case (Some a)
    from candidate_exists [OF Some] obtain c
      where "findOne amount_createdAt_desc (pending_pix_of (userId a)) (txns s) = Some c" ..
    with Some show ?thesis
      by (simp add: pixWebhook_def Let_def reconcile_not_per_user split: option.split)
  qed
qed

theorem per_user_not_found_unreachable_witness:
  "findOne createdAt_desc pending_pix (txns ex_store) = Some ex_dep35
   \<and> findOne amount_createdAt_desc (pending_pix_of 7) (txns ex_store) = Some ex_dep500
   \<and> fst (pixWebhook NoFault 30 (Some ex_paid) ex_store) \<noteq> Failure NoPendingDepositForUser"
  using per_user_not_found_unreachable [of ex_store NoFault 30 "Some ex_paid"]
  by (simp add: ex_paid_def ex_store_def ex_dep500_def ex_dep35_def new_deposit_def
      findOne_def pending_pix_def pending_pix_of_def createdAt_desc_def
      amount_createdAt_desc_def)

section \<open>Identifying the user\<close>

text \<open>
  Claim C5. When the store holds at least one pending PIX deposit and a confirmation
  with status \<^verbatim>\<open>'PAID'\<close> arrives, there is a pending PIX deposit \<open>a\<close> that no
  pending PIX deposit of any user was created after, and the handler acts for the
  owner of \<open>a\<close>: it answers success with that user's identifier, or the
  user-not-found failure when the user collection has no such user.
\<close>

theorem target_user_is_latest_pending_owner:
  assumes "p_status rb = Some ''PAID''" and "\<exists>t\<in>set (txns s). pending_pix t"
  shows "\<exists>a\<in>set (txns s). pending_pix a
           \<and> (\<forall>t\<in>set (txns s). pending_pix t \<longrightarrow> createdAt t \<le> createdAt a)
           \<and> (case findById (userId a) (users s) of
                None \<Rightarrow> fst (pixWebhook NoFault now (Some rb) s) = Failure UserNotFound
              | Some usr \<Rightarrow> \<exists>d. fst (pixWebhook NoFault now (Some rb) s) = WebhookOk d
                                \<and> r_userId d = userId a)"
proof -
  from assms(2) have "findOne createdAt_desc pending_pix (txns s) \<noteq> None"
    by (simp add: findOne_None_iff)
  then obtain a where a: "findOne createdAt_desc pending_pix (txns s) = Some a" by auto
  from candidate_exists [OF a] obtain c
    where c: "findOne amount_createdAt_desc (pending_pix_of (userId a)) (txns s) = Some c" ..
  from findOne_SomeD [OF a] have "a \<in> set (txns s)" "pending_pix a"
    and "\<forall>t\<in>set (txns s). pending_pix t \<longrightarrow> createdAt t \<le> createdAt a"
    by (simp_all add: createdAt_desc_def)
  moreover have "case findById (userId a) (users s) of
                None \<Rightarrow> fst (pixWebhook NoFault now (Some rb) s) = Failure UserNotFound
              | Some usr \<Rightarrow> \<exists>d. fst (pixWebhook NoFault now (Some rb) s) = WebhookOk d
                                \<and> r_userId d = userId a"
    by (simp add: pixWebhook_run [OF assms(1) a c] success_data_def split: option.split)
  ultimately show ?thesis by blast
qed

theorem target_user_is_latest_pending_owner_witness:
  "p_status ex_paid = Some ''PAID'' \<and> (\<exists>t\<in>set (txns ex_two_users). pending_pix t)
   \<and> (\<exists>a\<in>set (txns ex_two_users). pending_pix a
           \<and> (\<forall>t\<in>set (txns ex_two_users). pending_pix t \<longrightarrow> createdAt t \<le> createdAt a)
           \<and> (case findById (userId a) (users ex_two_users) of
                None \<Rightarrow> fst (pixWebhook NoFault 30 (Some ex_paid) ex_two_users) = Failure UserNotFound
              | Some usr \<Rightarrow> \<exists>d. fst (pixWebhook NoFault 30 (Some ex_paid) ex_two_users) = WebhookOk d
                                \<and> r_userId d = userId a))
   \<and> r_userId (case fst (pixWebhook NoFault 30 (Some ex_paid) ex_two_users) of WebhookOk d \<Rightarrow> d) = 7"
proof -
  have h1: "p_status ex_paid = Some ''PAID''" by (simp add: ex_paid_def)
  have h2: "\<exists>t\<in>set (txns ex_two_users). pending_pix t"
    by (simp add: ex_paid_def ex_two_users_def ex_dep100_def ex_dep500_def ex_dep35_def
        new_deposit_def pending_pix_def)
  have run: "r_userId (case fst (pixWebhook NoFault 30 (Some ex_paid) ex_two_users) of WebhookOk d \<Rightarrow> d) = 7"
    by (simp add: ex_paid_def ex_two_users_def ex_dep100_def ex_dep500_def ex_dep35_def
        new_deposit_def handler_defs)
  from target_user_is_latest_pending_owner [OF h1 h2, of 30] h1 h2 run show ?thesis by blast
qed

lemma filter_unique_oid:
  "distinct (map oid xs) \<Longrightarrow> c \<in> set xs \<Longrightarrow> filter (\<lambda>t. oid t = oid c) xs = [c]"
  by (induction xs) (force simp: filter_empty_conv image_iff)+

lemma after_resolved:
  assumes "distinct (map oid xs)"
  shows "filter (\<lambda>t. oid t \<in> set (map oid (filter P xs))) (map (resolved now rb u c) xs)
         = map (resolved now rb u c) (filter P xs)"
proof -
  have "\<And>t. t \<in> set xs \<Longrightarrow> (oid t \<in> set (map oid (filter P xs))) = P t"
    using same_oid_same_doc [OF assms] by auto
  then have "filter (\<lambda>t. oid t \<in> set (map oid (filter P xs))) xs = filter P xs"
    by (intro filter_cong) auto
  then show ?thesis by (simp add: filter_map comp_def)
qed

lemma webhook_ok_pair:
  "fst (pixWebhook flt now body s) = WebhookOk d \<Longrightarrow>
   pixWebhook flt now body s = (WebhookOk d, snd (pixWebhook flt now body s))"
  by (metis prod.collapse)

section \<open>Completing the largest deposit\<close>

text \<open>
  Claim C1. Let \<open>u\<close> be a user of the store whose pending PIX deposits have pairwise
  distinct amounts, and let a confirmation with status \<^verbatim>\<open>'PAID'\<close> arrive when the
  most recent pending PIX deposit found by the first lookup belongs to \<open>u\<close>. With
  identifiers unique in the store and a store that answers every call, the handler
  answers success, and among the \<open>N\<close> documents that were the pending PIX deposits of
  \<open>u\<close> exactly one is now COMPLETED, the one whose amount is larger than the amount
  of each other, and \<open>N - 1\<close> are CANCELLED.
\<close>

theorem largest_completed_rest_cancelled:
  assumes ids: "unique_ids s" and paid: "p_status rb = Some ''PAID''"
    and a: "findOne createdAt_desc pending_pix (txns s) = Some a" and u: "userId a = u"
    and usr: "findById u (users s) \<noteq> None"
    and amounts: "distinct (map amount (pending_of u s))"
  shows "\<exists>c\<in>set (pending_of u s).
            (\<forall>t\<in>set (pending_of u s). t \<noteq> c \<longrightarrow> amount t < amount c)
          \<and> fst (pixWebhook NoFault now (Some rb) s)
              = WebhookOk (success_data rb u c (length (pending_of u s) - 1))
          \<and> length (after (pending_of u s) (snd (pixWebhook NoFault now (Some rb) s)))
              = length (pending_of u s)
          \<and> map oid (filter (\<lambda>t. status t = COMPLETED)
                 (after (pending_of u s) (snd (pixWebhook NoFault now (Some rb) s)))) = [oid c]
          \<and> length (filter (\<lambda>t. status t = CANCELLED)
                 (after (pending_of u s) (snd (pixWebhook NoFault now (Some rb) s))))
              = length (pending_of u s) - 1"
proof -
  let ?P = "pending_of u s"
  from candidate_exists [OF a] u obtain c
    where c: "findOne amount_createdAt_desc (pending_pix_of u) (txns s) = Some c" by auto
  note cp = candidate_props [OF c]
  let ?res = "resolved now rb u c"
  from ids have dist: "distinct (map oid (txns s))" by (simp add: unique_ids_def)
  then have distP: "distinct (map oid ?P)" unfolding pending_of_def by (rule distinct_map_filter)
  from cp(1,2) have cP: "c \<in> set ?P" by (simp add: pending_of_def)
  have others: "filter (other_pending_pix_of u (oid c)) (txns s) = filter (\<lambda>t. oid t \<noteq> oid c) ?P"
    unfolding pending_of_def by (auto simp: other_pending_pix_of_def intro: filter_cong)
  have one: "filter (\<lambda>t. oid t = oid c) ?P = [c]" by (rule filter_unique_oid [OF distP cP])
  have "length (filter (\<lambda>t. oid t = oid c) ?P) + length (filter (\<lambda>t. \<not> oid t = oid c) ?P) = length ?P"
    by (rule sum_length_filter_compl)
  with one have n: "length (filter (\<lambda>t. oid t \<noteq> oid c) ?P) = length ?P - 1" by simp
  from usr obtain usr' where usr': "findById (userId a) (users s) = Some usr'" unfolding u by auto
  have run: "pixWebhook NoFault now (Some rb) s =
      (WebhookOk (success_data rb u c (length ?P - 1)),
       s\<lparr>txns := map ?res (txns s), users := credited now rb u c s\<rparr>)"
    using pixWebhook_run [OF paid a, of c now] c usr' by (simp add: u others n)
  have aft: "after ?P (snd (pixWebhook NoFault now (Some rb) s)) = map ?res ?P"
    unfolding run after_def pending_of_def using after_resolved [OF dist] by simp
  have stat: "\<And>t. t \<in> set ?P \<Longrightarrow> status (?res t) = (if oid t = oid c then COMPLETED else CANCELLED)"
    by (simp add: status_resolved pending_of_def)
  have comp: "filter (\<lambda>t. status t = COMPLETED) (map ?res ?P) = map ?res (filter (\<lambda>t. oid t = oid c) ?P)"
    unfolding filter_map comp_def by (rule arg_cong [where f = "map ?res"], rule filter_cong) (simp_all add: stat)
  have canc: "filter (\<lambda>t. status t = CANCELLED) (map ?res ?P) = map ?res (filter (\<lambda>t. oid t \<noteq> oid c) ?P)"
    unfolding filter_map comp_def by (rule arg_cong [where f = "map ?res"], rule filter_cong) (simp_all add: stat)
  have largest: "\<forall>t\<in>set ?P. t \<noteq> c \<longrightarrow> amount t < amount c"
  proof (intro ballI impI)
    fix t assume t: "t \<in> set ?P" "t \<noteq> c"
    with cp(3) have le: "amount t \<le> amount c" by (simp add: pending_of_def)
    from amounts have "inj_on amount (set ?P)" by (simp add: distinct_map)
    with t cP have "amount t \<noteq> amount c" by (auto dest: inj_onD)
    with le show "amount t < amount c" by simp
  qed
  show ?thesis
  proof (rule bexI [OF _ cP], intro conjI)
    show "\<forall>t\<in>set ?P. t \<noteq> c \<longrightarrow> amount t < amount c" by (rule largest)
    show "fst (pixWebhook NoFault now (Some rb) s) = WebhookOk (success_data rb u c (length ?P - 1))"
      by (simp add: run)
    show "length (after ?P (snd (pixWebhook NoFault now (Some rb) s))) = length ?P"
      by (simp add: aft)
    show "map oid (filter (\<lambda>t. status t = COMPLETED)
            (after ?P (snd (pixWebhook NoFault now (Some rb) s)))) = [oid c]"
      by (simp add: aft comp one)
    show "length (filter (\<lambda>t. status t = CANCELLED)
            (after ?P (snd (pixWebhook NoFault now (Some rb) s)))) = length ?P - 1"
      by (simp add: aft canc n)
  qed
qed

theorem largest_completed_rest_cancelled_witness:
  "unique_ids ex_store \<and> p_status ex_paid = Some ''PAID''
   \<and> findOne createdAt_desc pending_pix (txns ex_store) = Some ex_dep35 \<and> userId ex_dep35 = 7
   \<and> findById 7 (users ex_store) \<noteq> None
   \<and> distinct (map amount (pending_of 7 ex_store))
   \<and> (\<exists>c\<in>set (pending_of 7 ex_store).
            (\<forall>t\<in>set (pending_of 7 ex_store). t \<noteq> c \<longrightarrow> amount t < amount c)
          \<and> fst (pixWebhook NoFault 30 (Some ex_paid) ex_store)
              = WebhookOk (success_data ex_paid 7 c (length (pending_of 7 ex_store) - 1))
          \<and> length (after (pending_of 7 ex_store) (snd (pixWebhook NoFault 30 (Some ex_paid) ex_store)))
              = length (pending_of 7 ex_store)
          \<and> map oid (filter (\<lambda>t. status t = COMPLETED)
                 (after (pending_of 7 ex_store) (snd (pixWebhook NoFault 30 (Some ex_paid) ex_store))))
              = [oid c]
          \<and> length (filter (\<lambda>t. status t = CANCELLED)
                 (after (pending_of 7 ex_store) (snd (pixWebhook NoFault 30 (Some ex_paid) ex_store))))
              = length (pending_of 7 ex_store) - 1)
   \<and> map amount (txns ex_store) = [500, 35]
   \<and> map status (txns (snd (pixWebhook NoFault 30 (Some ex_paid) ex_store))) = [COMPLETED, CANCELLED]"
proof -
  have h1: "unique_ids ex_store"
    by (simp add: unique_ids_def ex_paid_def ex_store_def ex_dep500_def ex_dep35_def
        new_deposit_def)
  have h2: "p_status ex_paid = Some ''PAID''"
    by (simp add: ex_paid_def ex_store_def ex_dep500_def ex_dep35_def new_deposit_def)
  have h3: "findOne createdAt_desc pending_pix (txns ex_store) = Some ex_dep35"
    by (simp add: ex_paid_def ex_store_def ex_dep500_def ex_dep35_def new_deposit_def findOne_def
        pending_pix_def createdAt_desc_def)
  have h4: "userId ex_dep35 = 7"
    by (simp add: ex_paid_def ex_store_def ex_dep500_def ex_dep35_def new_deposit_def)
  have h5: "findById 7 (users ex_store) \<noteq> None"
    by (simp add: ex_paid_def ex_store_def ex_dep500_def ex_dep35_def new_deposit_def findById_def)
  have h6: "distinct (map amount (pending_of 7 ex_store))"
    by (simp add: ex_paid_def ex_store_def ex_dep500_def ex_dep35_def new_deposit_def
        pending_of_def pending_pix_of_def pending_pix_def)
  have obs: "map amount (txns ex_store) = [500, 35]
     \<and> map status (txns (snd (pixWebhook NoFault 30 (Some ex_paid) ex_store))) = [COMPLETED, CANCELLED]"
    by (simp add: ex_paid_def ex_store_def ex_dep500_def ex_dep35_def new_deposit_def handler_defs)
  from largest_completed_rest_cancelled [OF h1 h2 h3 h4 h5 h6, of 30] h1 h2 h3 h4 h5 h6 obs
  show ?thesis by blast
qed

text \<open>
  Claim C6. In every run that answers success (identifiers unique in the store), the
  document that is COMPLETED afterwards is a pending PIX deposit \<open>c\<close> of the user the
  answer names such that every pending PIX deposit of that user has an amount at most
  that of \<open>c\<close> and, when it has the same amount, was created no later than \<open>c\<close>:
  among the deposits that share the largest amount, the most recent one is completed.
  Each other pending PIX deposit of the user is CANCELLED afterwards.
\<close>

theorem tie_break_most_recent:
  assumes "unique_ids s" and "fst (pixWebhook NoFault now body s) = WebhookOk d"
  shows "\<exists>c\<in>set (txns s). pending_pix_of (r_userId d) c
      \<and> (\<forall>t\<in>set (txns s). pending_pix_of (r_userId d) t \<longrightarrow>
            amount t \<le> amount c \<and> (amount t = amount c \<longrightarrow> createdAt t \<le> createdAt c))
      \<and> status_of (oid c) (snd (pixWebhook NoFault now body s)) = Some COMPLETED
      \<and> (\<forall>t\<in>set (txns s). pending_pix_of (r_userId d) t \<and> oid t \<noteq> oid c \<longrightarrow>
            status_of (oid t) (snd (pixWebhook NoFault now body s)) = Some CANCELLED)"
proof -
  define s' where "s' = snd (pixWebhook NoFault now body s)"
  from webhook_ok_pair [OF assms(2)] have "pixWebhook NoFault now body s = (WebhookOk d, s')"
    by (simp add: s'_def)
  then obtain rb a c usr where
    "body = Some rb" and "p_status rb = Some ''PAID''"
    and "findOne createdAt_desc pending_pix (txns s) = Some a"
    and c: "findOne amount_createdAt_desc (pending_pix_of (userId a)) (txns s) = Some c"
    and usr: "findById (userId a) (users s) = Some usr"
    and d: "d = success_data rb (userId a) c
               (length (filter (other_pending_pix_of (userId a) (oid c)) (txns s)))"
    and s': "s' = s\<lparr>txns := map (resolved now rb (userId a) c) (txns s),
                users := credited now rb (userId a) c s\<rparr>"
    by (rule pixWebhook_WebhookOkE)
  from d have u: "r_userId d = userId a" by (simp add: success_data_def)
  from assms(1) have dist: "distinct (map oid (txns s))" by (simp add: unique_ids_def)
  note cp = candidate_props [OF c]
  have "status_of (oid c) s' = Some COMPLETED"
    unfolding s' by (simp add: status_of_resolved [OF dist cp(1)] status_resolved)
  moreover have "\<forall>t\<in>set (txns s). pending_pix_of (r_userId d) t \<and> oid t \<noteq> oid c \<longrightarrow>
            status_of (oid t) s' = Some CANCELLED"
    unfolding s' u by (simp add: status_of_resolved [OF dist] status_resolved)
  ultimately show ?thesis using cp unfolding u s'_def by blast
qed

theorem tie_break_most_recent_witness:
  "unique_ids ex_tie
   \<and> fst (pixWebhook NoFault 30 (Some ex_paid) ex_tie)
       = WebhookOk (success_data ex_paid 7 ex_dep500_later 2)
   \<and> (\<exists>c\<in>set (txns ex_tie). pending_pix_of 7 c
      \<and> (\<forall>t\<in>set (txns ex_tie). pending_pix_of 7 t \<longrightarrow>
            amount t \<le> amount c \<and> (amount t = amount c \<longrightarrow> createdAt t \<le> createdAt c))
      \<and> status_of (oid c) (snd (pixWebhook NoFault 30 (Some ex_paid) ex_tie)) = Some COMPLETED
      \<and> (\<forall>t\<in>set (txns ex_tie). pending_pix_of 7 t \<and> oid t \<noteq> oid c \<longrightarrow>
            status_of (oid t) (snd (pixWebhook NoFault 30 (Some ex_paid) ex_tie)) = Some CANCELLED))
   \<and> map (\<lambda>t. (amount t, createdAt t)) (txns ex_tie) = [(500, 10), (500, 15), (35, 20)]
   \<and> map status (txns (snd (pixWebhook NoFault 30 (Some ex_paid) ex_tie)))
       = [CANCELLED, COMPLETED, CANCELLED]"
proof -
  have h1: "unique_ids ex_tie"
    by (simp add: unique_ids_def ex_paid_def ex_tie_def ex_dep500_def ex_dep500_later_def
        ex_dep35_def new_deposit_def)
  have h2: "fst (pixWebhook NoFault 30 (Some ex_paid) ex_tie)
              = WebhookOk (success_data ex_paid 7 ex_dep500_later 2)"
    by (simp add: ex_paid_def ex_tie_def ex_dep500_def ex_dep500_later_def ex_dep35_def
        new_deposit_def handler_defs)
  have obs: "map (\<lambda>t. (amount t, createdAt t)) (txns ex_tie) = [(500, 10), (500, 15), (35, 20)]
     \<and> map status (txns (snd (pixWebhook NoFault 30 (Some ex_paid) ex_tie)))
         = [CANCELLED, COMPLETED, CANCELLED]"
    by (simp add: ex_paid_def ex_tie_def ex_dep500_def ex_dep500_later_def ex_dep35_def
        new_deposit_def handler_defs)
  have u: "r_userId (success_data ex_paid 7 ex_dep500_later 2) = 7" by (simp add: success_data_def)
  from tie_break_most_recent [OF h1 h2] h1 h2 obs show ?thesis unfolding u by blast
qed

section \<open>The balance\<close>

text \<open>
  Claim C2. In every run that answers success (identifiers unique in the store), the
  balance of the user the answer names grows by exactly the amount of the completed
  candidate, which is the amount the answer reports as credited and the largest amount
  among that user's pending PIX deposits; the balance of every other user is unchanged.
  The cancelled deposits add nothing: with pending deposits of 500 and 35 the balance
  grows by 500. The credit itself is the contract of the model's middleware, taken
  from the specification.
\<close>

theorem credited_once:
  assumes "unique_ids s" and "fst (pixWebhook NoFault now body s) = WebhookOk d"
  shows "\<exists>c\<in>set (txns s). pending_pix_of (r_userId d) c
      \<and> (\<forall>t\<in>set (txns s). pending_pix_of (r_userId d) t \<longrightarrow> amount t \<le> amount c)
      \<and> status_of (oid c) (snd (pixWebhook NoFault now body s)) = Some COMPLETED
      \<and> totalCredited d = amount c
      \<and> (\<exists>b. balance_of (r_userId d) s = Some b
              \<and> balance_of (r_userId d) (snd (pixWebhook NoFault now body s)) = Some (b + amount c))
      \<and> (\<forall>v. v \<noteq> r_userId d \<longrightarrow>
              balance_of v (snd (pixWebhook NoFault now body s)) = balance_of v s)"
proof -
  define s' where "s' = snd (pixWebhook NoFault now body s)"
  from webhook_ok_pair [OF assms(2)] have "pixWebhook NoFault now body s = (WebhookOk d, s')"
    by (simp add: s'_def)
  then obtain rb a c usr where
    "body = Some rb" and "p_status rb = Some ''PAID''"
    and "findOne createdAt_desc pending_pix (txns s) = Some a"
    and c: "findOne amount_createdAt_desc (pending_pix_of (userId a)) (txns s) = Some c"
    and usr: "findById (userId a) (users s) = Some usr"
    and d: "d = success_data rb (userId a) c
               (length (filter (other_pending_pix_of (userId a) (oid c)) (txns s)))"
    and s': "s' = s\<lparr>txns := map (resolved now rb (userId a) c) (txns s),
                users := credited now rb (userId a) c s\<rparr>"
    by (rule pixWebhook_WebhookOkE)
  from d have u: "r_userId d = userId a" and tot: "totalCredited d = amount c"
    by (simp_all add: success_data_def)
  from assms(1) have dist: "distinct (map oid (txns s))" by (simp add: unique_ids_def)
  note cp = candidate_props [OF c]
  have users': "users s' =
      map (\<lambda>x. if uid x = userId a then x\<lparr>balance := balance x + amount c\<rparr> else x) (users s)"
    unfolding s' by (simp add: credited_candidate [OF dist cp(1,2)])
  have bal: "balance_of v s' =
      map_option (\<lambda>b. if v = userId a then b + amount c else b) (balance_of v s)" for v
    unfolding balance_of_def findById_def users' by (rule balance_after_credit)
  have "status_of (oid c) s' = Some COMPLETED"
    unfolding s' by (simp add: status_of_resolved [OF dist cp(1)] status_resolved)
  moreover have "\<exists>b. balance_of (r_userId d) s = Some b
                    \<and> balance_of (r_userId d) s' = Some (b + amount c)"
    unfolding u bal using usr by (simp add: balance_of_def)
  moreover have "\<forall>v. v \<noteq> r_userId d \<longrightarrow> balance_of v s' = balance_of v s"
    unfolding u bal by (simp add: option.map_ident)
  ultimately show ?thesis using cp tot unfolding u s'_def by blast
qed

theorem credited_once_witness:
  "unique_ids ex_store
   \<and> fst (pixWebhook NoFault 30 (Some ex_paid) ex_store) = WebhookOk (success_data ex_paid 7 ex_dep500 1)
   \<and> (\<exists>c\<in>set (txns ex_store). pending_pix_of 7 c
      \<and> (\<forall>t\<in>set (txns ex_store). pending_pix_of 7 t \<longrightarrow> amount t \<le> amount c)
      \<and> status_of (oid c) (snd (pixWebhook NoFault 30 (Some ex_paid) ex_store)) = Some COMPLETED
      \<and> totalCredited (success_data ex_paid 7 ex_dep500 1) = amount c
      \<and> (\<exists>b. balance_of 7 ex_store = Some b
              \<and> balance_of 7 (snd (pixWebhook NoFault 30 (Some ex_paid) ex_store)) = Some (b + amount c))
      \<and> (\<forall>v. v \<noteq> 7 \<longrightarrow>
              balance_of v (snd (pixWebhook NoFault 30 (Some ex_paid) ex_store)) = balance_of v ex_store))
   \<and> map amount (txns ex_store) = [500, 35]
   \<and> balance_of 7 ex_store = Some 3
   \<and> balance_of 7 (snd (pixWebhook NoFault 30 (Some ex_paid) ex_store)) = Some 503"
proof -
  have h1: "unique_ids ex_store"
    by (simp add: unique_ids_def ex_paid_def ex_store_def ex_dep500_def ex_dep35_def
        new_deposit_def)
  have h2: "fst (pixWebhook NoFault 30 (Some ex_paid) ex_store)
              = WebhookOk (success_data ex_paid 7 ex_dep500 1)"
    by (simp add: ex_paid_def ex_store_def ex_dep500_def ex_dep35_def new_deposit_def handler_defs)
  have obs: "map amount (txns ex_store) = [500, 35] \<and> balance_of 7 ex_store = Some 3
     \<and> balance_of 7 (snd (pixWebhook NoFault 30 (Some ex_paid) ex_store)) = Some 503"
    by (simp add: ex_paid_def ex_store_def ex_dep500_def ex_dep35_def new_deposit_def handler_defs
        balance_of_def)
  have u: "r_userId (success_data ex_paid 7 ex_dep500 1) = 7" by (simp add: success_data_def)
  from credited_once [OF h1 h2] h1 h2 obs show ?thesis unfolding u by blast
qed

section \<open>Terminal states\<close>



lemma oid_partly_resolved [simp]: "oid (partly_resolved w ws now rb u c t) = oid t"
  by (simp add: partly_resolved_def mark_cancelled_def)

lemma status_partly_resolved:
  "status (partly_resolved w ws now rb u c t) =
     (if oid t = oid c then (if w then COMPLETED else status t)
      else if pending_pix_of u t \<and> oid t \<in> set ws then CANCELLED else status t)"
  by (simp add: partly_resolved_def mark_cancelled_def mark_completed_def)


lemma save_interrupted_txns:
  "txns (save_interrupted w h now (mark_completed now rb u c) s)
   = map (partly_resolved w [] now rb u c) (txns s)"
  by (auto simp: save_interrupted_def save_def partly_resolved_def intro: map_idI [symmetric])

lemma save_txns:
  "txns (save now (mark_completed now rb u c) s) = map (partly_resolved True [] now rb u c) (txns s)"
  by (simp add: save_def partly_resolved_def)

lemma updateMany_some_txns:
  "txns (updateMany (\<lambda>t. other_pending_pix_of u (oid c) t \<and> oid t \<in> set ws) (mark_cancelled now)
           (save now (mark_completed now rb u c) s))
   = map (partly_resolved True ws now rb u c) (txns s)"
  by (auto simp: updateMany_def save_def partly_resolved_def other_pending_pix_of_def)








section \<open>Failures of the store\<close>

lemma status_of_map:
  assumes "distinct (map oid (txns s))" and "t \<in> set (txns s)"
    and "txns s' = map g (txns s)" and "\<And>t. oid (g t) = oid t"
  shows "status_of (oid t) s' = Some (status (g t))"
  using find_unique_oid [OF assms(1,2)] assms(3,4) by (simp add: status_of_def find_map_oid)

lemma reconcile_failure_txns:
  assumes "fst (reconcile flt now rb u c s) = Failure InternalError"
  shows "txns (snd (reconcile flt now rb u c s))
         = map (partly_resolved (doc_written flt) (patched flt) now rb u c) (txns s)"
proof (cases flt)
  case (Fail_save w h)
  then show ?thesis by (simp add: reconcile_def save_interrupted_txns)
next
  case Fail_findOthers
  then show ?thesis by (simp add: reconcile_def Let_def save_txns)
next
  case (Fail_updateMany ws)
  with assms show ?thesis
    by (simp add: reconcile_def Let_def updateMany_some_txns split: if_splits)
qed (use assms in \<open>simp_all add: reconcile_def Let_def split: if_splits\<close>)

lemma pixWebhook_stages:
  assumes paid: "p_status rb = Some ''PAID''"
    and a: "findOne createdAt_desc pending_pix (txns s) = Some a"
    and c: "findOne amount_createdAt_desc (pending_pix_of (userId a)) (txns s) = Some c"
  shows "pixWebhook flt now (Some rb) s =
     (if flt = Fail_findAnyPending \<or> flt = Fail_findLatest \<or> flt = Fail_findUser
      then (Failure InternalError, s)
      else case findById (userId a) (users s) of
             None \<Rightarrow> (Failure UserNotFound, s)
           | Some usr \<Rightarrow> reconcile flt now rb (userId a) c s)"
proof -
  from findOne_SomeD(2) [OF c] have "userId c = userId a"
    by (simp add: pending_pix_of_def)
  then show ?thesis
    by (simp add: pixWebhook_def paid a c Let_def split: option.split)
qed

lemma pixWebhook_InternalError:
  assumes "fst (pixWebhook flt now body s) = Failure InternalError"
  shows "(flt \<in> {Fail_findAnyPending, Fail_findLatest, Fail_findUser}
            \<and> snd (pixWebhook flt now body s) = s)
       \<or> (flt \<notin> {Fail_findAnyPending, Fail_findLatest, Fail_findUser}
            \<and> (\<exists>rb (a::txn) c.
                  findOne amount_createdAt_desc (pending_pix_of (userId a)) (txns s) = Some c
                  \<and> txns (snd (pixWebhook flt now body s))
                      = map (partly_resolved (doc_written flt) (patched flt) now rb (userId a) c)
                          (txns s)))"
proof -
  from assms obtain rb where body: "body = Some rb" and paid: "p_status rb = Some ''PAID''"
    by (auto simp: pixWebhook_def split: option.splits if_splits)
  show ?thesis
  proof (cases "findOne createdAt_desc pending_pix (txns s)")
    case None
    with assms body paid show ?thesis
      by (auto simp: pixWebhook_def split: if_splits)
  next
    case (Some a)
    from candidate_exists [OF Some] obtain c
      where c: "findOne amount_createdAt_desc (pending_pix_of (userId a)) (txns s) = Some c" ..
    note run = pixWebhook_stages [OF paid Some c, of flt now, folded body]
    show ?thesis
    proof (cases "flt = Fail_findAnyPending \<or> flt = Fail_findLatest \<or> flt = Fail_findUser")
      case True
      with run show ?thesis by auto
    next
      case False
      with run assms have rec: "pixWebhook flt now body s = reconcile flt now rb (userId a) c s"
        by (auto split: option.splits)
      from assms have "fst (reconcile flt now rb (userId a) c s) = Failure InternalError"
        unfolding rec .
      from reconcile_failure_txns [OF this]
      have "txns (snd (pixWebhook flt now body s))
            = map (partly_resolved (doc_written flt) (patched flt) now rb (userId a) c) (txns s)"
        unfolding rec .
      with c False show ?thesis by blast
    qed
  qed
qed

text \<open>
  Claim C3, as stated, fails. With pending deposits of 500 and 35 and an
  \<^verbatim>\<open>updateMany\<close> that throws before it has patched any document, the handler
  answers 500 after the candidate's save: the deposit of 500 is COMPLETED and the
  deposit of 35 is still PENDING.
\<close>

theorem partial_update_counterexample:
  "fst (pixWebhook (Fail_updateMany []) 30 (Some ex_paid) ex_store) = Failure InternalError
   \<and> map status (txns ex_store) = [PENDING, PENDING]
   \<and> map status (txns (snd (pixWebhook (Fail_updateMany []) 30 (Some ex_paid) ex_store)))
       = [COMPLETED, PENDING]"
  by (simp add: ex_paid_def ex_store_def ex_dep500_def ex_dep35_def new_deposit_def handler_defs)

text \<open>
  Claim C3, amended. The save of the candidate and the cancellation of the siblings
  are separate store calls; nothing is rolled back, and a call that throws leaves
  what it had written. When a run ends in the internal error (identifiers unique in
  the store): if the call that threw is one of the three lookups before the save, the
  database is left as it was. Otherwise there is a pending PIX deposit \<open>c\<close>, the
  candidate, such that afterwards
  \<^item> \<open>c\<close> is COMPLETED, except that it is still PENDING when it was the save that
    threw and the document had not been written;
  \<^item> a pending PIX deposit of the same user other than \<open>c\<close> is CANCELLED when it was
    the \<^verbatim>\<open>updateMany\<close> that threw and it had patched that document, and is still
    PENDING otherwise;
  \<^item> every other document has the status it had.
  So the candidate can be COMPLETED while siblings are PENDING, and siblings can be
  CANCELLED while others are PENDING.
\<close>

theorem failure_leaves_partial_state:
  assumes "unique_ids s" and "fst (pixWebhook flt now body s) = Failure InternalError"
  shows "(flt \<in> {Fail_findAnyPending, Fail_findLatest, Fail_findUser} \<longrightarrow>
            snd (pixWebhook flt now body s) = s)
       \<and> (flt \<notin> {Fail_findAnyPending, Fail_findLatest, Fail_findUser} \<longrightarrow>
            (\<exists>c\<in>set (txns s). pending_pix c
               \<and> status_of (oid c) (snd (pixWebhook flt now body s))
                   = Some (if doc_written flt then COMPLETED else PENDING)
               \<and> (\<forall>t\<in>set (txns s). oid t \<noteq> oid c \<longrightarrow>
                     status_of (oid t) (snd (pixWebhook flt now body s))
                       = Some (if pending_pix_of (userId c) t \<and> oid t \<in> set (patched flt)
                               then CANCELLED else status t))))"
proof -
  from assms(1) have dist: "distinct (map oid (txns s))" by (simp add: unique_ids_def)
  from pixWebhook_InternalError [OF assms(2)] show ?thesis
  proof (elim disjE exE conjE)
    assume "flt \<in> {Fail_findAnyPending, Fail_findLatest, Fail_findUser}"
      and "snd (pixWebhook flt now body s) = s"
    then show ?thesis by simp
  next
    fix rb and a :: txn and c
    assume flt: "flt \<notin> {Fail_findAnyPending, Fail_findLatest, Fail_findUser}"
      and c: "findOne amount_createdAt_desc (pending_pix_of (userId a)) (txns s) = Some c"
      and txns': "txns (snd (pixWebhook flt now body s))
                  = map (partly_resolved (doc_written flt) (patched flt) now rb (userId a) c)
                      (txns s)"
    from candidate_props(1,2) [OF c] have cs: "c \<in> set (txns s)" and pc: "pending_pix c"
      and uc: "userId c = userId a" and sc: "status c = PENDING"
      by (simp_all add: pending_pix_of_def pending_pix_def)
    note st = status_of_map [OF dist _ txns' oid_partly_resolved]
    have "status_of (oid c) (snd (pixWebhook flt now body s))
            = Some (if doc_written flt then COMPLETED else PENDING)"
      by (simp add: st [OF cs] status_partly_resolved sc)
    moreover have "\<forall>t\<in>set (txns s). oid t \<noteq> oid c \<longrightarrow>
        status_of (oid t) (snd (pixWebhook flt now body s))
          = Some (if pending_pix_of (userId c) t \<and> oid t \<in> set (patched flt)
                  then CANCELLED else status t)"
      by (simp add: st status_partly_resolved uc)
    ultimately show ?thesis using flt cs pc by blast
  qed
qed

theorem failure_leaves_partial_state_witness:
  "unique_ids ex_tie
   \<and> fst (pixWebhook (Fail_updateMany [2]) 30 (Some ex_paid) ex_tie) = Failure InternalError
   \<and> Fail_updateMany [2] \<notin> {Fail_findAnyPending, Fail_findLatest, Fail_findUser}
   \<and> (\<exists>c\<in>set (txns ex_tie). pending_pix c
         \<and> status_of (oid c) (snd (pixWebhook (Fail_updateMany [2]) 30 (Some ex_paid) ex_tie))
             = Some (if doc_written (Fail_updateMany [2]) then COMPLETED else PENDING)
         \<and> (\<forall>t\<in>set (txns ex_tie). oid t \<noteq> oid c \<longrightarrow>
               status_of (oid t) (snd (pixWebhook (Fail_updateMany [2]) 30 (Some ex_paid) ex_tie))
                 = Some (if pending_pix_of (userId c) t \<and> oid t \<in> set (patched (Fail_updateMany [2]))
                         then CANCELLED else status t)))
   \<and> map oid (txns ex_tie) = [1, 4, 2]
   \<and> map status (txns (snd (pixWebhook (Fail_updateMany [2]) 30 (Some ex_paid) ex_tie)))
       = [PENDING, COMPLETED, CANCELLED]
   \<and> fst (pixWebhook (Fail_save False True) 30 (Some ex_paid) ex_tie) = Failure InternalError
   \<and> map status (txns (snd (pixWebhook (Fail_save False True) 30 (Some ex_paid) ex_tie)))
       = [PENDING, PENDING, PENDING]
   \<and> fst (pixWebhook Fail_findLatest 30 (Some ex_paid) ex_tie) = Failure InternalError
   \<and> snd (pixWebhook Fail_findLatest 30 (Some ex_paid) ex_tie) = ex_tie"
proof -
  have h1: "unique_ids ex_tie"
    by (simp add: unique_ids_def ex_tie_def ex_dep500_def ex_dep500_later_def ex_dep35_def
        new_deposit_def)
  have h2: "fst (pixWebhook (Fail_updateMany [2]) 30 (Some ex_paid) ex_tie) = Failure InternalError"
    by (simp add: ex_paid_def ex_tie_def ex_dep500_def ex_dep500_later_def ex_dep35_def
        new_deposit_def handler_defs)
  have h3: "fst (pixWebhook Fail_findLatest 30 (Some ex_paid) ex_tie) = Failure InternalError"
    by (simp add: ex_paid_def ex_tie_def ex_dep500_def ex_dep500_later_def ex_dep35_def
        new_deposit_def handler_defs)
  have n: "Fail_updateMany [2] \<notin> {Fail_findAnyPending, Fail_findLatest, Fail_findUser}" by simp
  have obs: "map oid (txns ex_tie) = [1, 4, 2]
     \<and> map status (txns (snd (pixWebhook (Fail_updateMany [2]) 30 (Some ex_paid) ex_tie)))
         = [PENDING, COMPLETED, CANCELLED]
     \<and> fst (pixWebhook (Fail_save False True) 30 (Some ex_paid) ex_tie) = Failure InternalError
     \<and> map status (txns (snd (pixWebhook (Fail_save False True) 30 (Some ex_paid) ex_tie)))
         = [PENDING, PENDING, PENDING]"
    by (simp add: ex_paid_def ex_tie_def ex_dep500_def ex_dep500_later_def ex_dep35_def
        new_deposit_def handler_defs save_interrupted_def)
  from failure_leaves_partial_state [OF h1 h2] failure_leaves_partial_state [OF h1 h3]
    h1 h2 h3 n obs
  show ?thesis by simp
qed

section \<open>A second delivery\<close>

lemma resolved_not_pending_of: "\<not> pending_pix_of u (resolved now rb u c t)"
  by (simp add: resolved_def pending_pix_of_def pending_pix_def mark_cancelled_def
      mark_completed_def)

lemma resolved_not_pending:
  "(pending_pix t \<longrightarrow> userId t = u) \<Longrightarrow> \<not> pending_pix (resolved now rb u c t)"
  by (auto simp: resolved_def pending_pix_of_def pending_pix_def mark_cancelled_def mark_completed_def)

text \<open>
  Claim C4, as stated, fails. User 7 has pending deposits of 500 and 35, user 8 an
  older pending deposit of 100. The first delivery credits user 7; the second delivery
  of the same payload finds the deposit of user 8, answers success and credits
  user 8 with 100.
\<close>

theorem second_delivery_counterexample:
  "fst (pixWebhook NoFault 30 (Some ex_paid) ex_two_users) = WebhookOk (success_data ex_paid 7 ex_dep500 1)
   \<and> fst (pixWebhook NoFault 31 (Some ex_paid) (snd (pixWebhook NoFault 30 (Some ex_paid) ex_two_users)))
       = WebhookOk (success_data ex_paid 8 ex_dep100 0)
   \<and> balance_of 8 (snd (pixWebhook NoFault 30 (Some ex_paid) ex_two_users)) = Some 0
   \<and> balance_of 8 (snd (pixWebhook NoFault 31 (Some ex_paid)
         (snd (pixWebhook NoFault 30 (Some ex_paid) ex_two_users)))) = Some 100"
  by (simp add: ex_paid_def ex_two_users_def ex_dep100_def ex_dep500_def ex_dep35_def
      new_deposit_def handler_defs balance_of_def)

text \<open>
  Claim C4, amended. After a delivery that answers success, no pending PIX deposit of
  the user it names is left; and when every pending PIX deposit of the store belonged
  to that user, a second delivery of the same payload is answered with the
  no-pending-deposit failure and leaves the database as the first delivery left it.
\<close>

theorem second_delivery:
  assumes "fst (pixWebhook NoFault now body s) = WebhookOk d"
  shows "(\<forall>t\<in>set (txns (snd (pixWebhook NoFault now body s))). \<not> pending_pix_of (r_userId d) t)
       \<and> ((\<forall>t\<in>set (txns s). pending_pix t \<longrightarrow> userId t = r_userId d) \<longrightarrow>
            pixWebhook NoFault now' body (snd (pixWebhook NoFault now body s))
              = (Failure NoPendingDeposit, snd (pixWebhook NoFault now body s)))"
proof -
  define s' where "s' = snd (pixWebhook NoFault now body s)"
  from webhook_ok_pair [OF assms] have "pixWebhook NoFault now body s = (WebhookOk d, s')"
    by (simp add: s'_def)
  then obtain rb a c usr where
    body: "body = Some rb" and paid: "p_status rb = Some ''PAID''"
    and "findOne createdAt_desc pending_pix (txns s) = Some a"
    and c: "findOne amount_createdAt_desc (pending_pix_of (userId a)) (txns s) = Some c"
    and usr: "findById (userId a) (users s) = Some usr"
    and d: "d = success_data rb (userId a) c
               (length (filter (other_pending_pix_of (userId a) (oid c)) (txns s)))"
    and s': "s' = s\<lparr>txns := map (resolved now rb (userId a) c) (txns s),
                users := credited now rb (userId a) c s\<rparr>"
    by (rule pixWebhook_WebhookOkE)
  from d have u: "r_userId d = userId a" by (simp add: success_data_def)
  have first: "\<forall>t\<in>set (txns s'). \<not> pending_pix_of (r_userId d) t"
    unfolding s' u by (simp add: resolved_not_pending_of)
  have second: "pixWebhook NoFault now' body s' = (Failure NoPendingDeposit, s')"
    if all: "\<forall>t\<in>set (txns s). pending_pix t \<longrightarrow> userId t = r_userId d"
  proof -
    from all have "\<forall>t\<in>set (txns s'). \<not> pending_pix t"
      unfolding s' u by (simp add: resolved_not_pending)
    then have "findOne createdAt_desc pending_pix (txns s') = None"
      by (simp add: findOne_None_iff)
    then show ?thesis by (simp add: pixWebhook_def body paid)
  qed
  from first second show ?thesis unfolding s'_def by blast
qed

theorem second_delivery_witness:
  "fst (pixWebhook NoFault 30 (Some ex_paid) ex_store) = WebhookOk (success_data ex_paid 7 ex_dep500 1)
   \<and> map userId (filter pending_pix (txns ex_store)) = [7, 7]
   \<and> filter (pending_pix_of 7) (txns (snd (pixWebhook NoFault 30 (Some ex_paid) ex_store))) = []
   \<and> pixWebhook NoFault 31 (Some ex_paid) (snd (pixWebhook NoFault 30 (Some ex_paid) ex_store))
       = (Failure NoPendingDeposit, snd (pixWebhook NoFault 30 (Some ex_paid) ex_store))"
proof -
  have h1: "fst (pixWebhook NoFault 30 (Some ex_paid) ex_store)
              = WebhookOk (success_data ex_paid 7 ex_dep500 1)"
    by (simp add: ex_paid_def ex_store_def ex_dep500_def ex_dep35_def new_deposit_def handler_defs)
  have h2: "\<forall>t\<in>set (txns ex_store). pending_pix t \<longrightarrow> userId t = 7"
    by (simp add: ex_paid_def ex_store_def ex_dep500_def ex_dep35_def new_deposit_def)
  have obs: "map userId (filter pending_pix (txns ex_store)) = [7, 7]"
    by (simp add: ex_paid_def ex_store_def ex_dep500_def ex_dep35_def new_deposit_def
        pending_pix_def)
  have u: "r_userId (success_data ex_paid 7 ex_dep500 1) = 7" by (simp add: success_data_def)
  from second_delivery [OF h1, of 31] h1 h2 obs show ?thesis
    unfolding u by (simp add: filter_empty_conv)
qed

end
